theory Spec2Isabelle
  imports Complex_Main "HOL-Library.Sublist"
begin

section \<open>Data model of backend/server.py\<close>

text \<open>
  The service is a set of request handlers over four MongoDB collections. The embedding
  keeps the handlers' names and their order of checks. What the source takes from its
  environment is passed in explicitly: the value of \<^verbatim>\<open>uuid.uuid4()\<close> as \<open>new_id\<close>,
  the value of \<^verbatim>\<open>datetime.now(timezone.utc)\<close> as \<open>now\<close> (POSIX seconds), the
  digest \<^verbatim>\<open>hashlib.sha256(..).hexdigest()\<close> as a function \<open>sha256_hex\<close>, and the
  document store as a record of four lists in insertion order (\<^verbatim>\<open>find_one\<close> returns
  the first matching document, \<^verbatim>\<open>insert_one\<close> appends). Python's \<^verbatim>\<open>float\<close> is
  read as \<open>real\<close>: rounding of binary64 arithmetic is not part of this model.
\<close>

type_synonym timestamp = real
type_synonym pyfloat = real

datatype ProductCategory = COFFEE | TEA | PASTRY | SANDWICH | CAKE | COOKIE | BEVERAGE

datatype OrderStatus = PENDING | CONFIRMED | PREPARING | READY | COMPLETED | CANCELLED

datatype UserRole = CUSTOMER | ADMIN

text \<open>Field names carry a prefix per class, since record fields share one name space.\<close>

record Product =
  p_id :: string
  p_name :: string
  p_description :: string
  p_price :: pyfloat
  p_category :: ProductCategory
  p_image_url :: string
  p_available :: bool
  p_ingredients :: "string list"
  p_nutritional_info :: "(string \<times> pyfloat) list"
  p_created_at :: timestamp

record ProductCreate =
  pc_name :: string
  pc_description :: string
  pc_price :: pyfloat
  pc_category :: ProductCategory
  pc_image_url :: string
  pc_ingredients :: "string list"
  pc_nutritional_info :: "(string \<times> pyfloat) list"

text \<open>The class \<^verbatim>\<open>User\<close> declares no password field.\<close>

record User =
  u_id :: string
  u_email :: string
  u_name :: string
  u_role :: UserRole
  u_phone :: "string option"
  u_address :: "string option"
  u_created_at :: timestamp

record UserCreate =
  uc_email :: string
  uc_name :: string
  uc_password :: string
  uc_phone :: "string option"
  uc_address :: "string option"

record UserLogin =
  ul_email :: string
  ul_password :: string

text \<open>
  A document of the collection \<^verbatim>\<open>db.users\<close>. Documents are dictionaries, so the key
  \<^verbatim>\<open>"password"\<close> may be absent: \<open>None\<close> is the absent key.
\<close>

record user_doc =
  ud_id :: string
  ud_email :: string
  ud_name :: string
  ud_password :: "string option"
  ud_role :: UserRole
  ud_phone :: "string option"
  ud_address :: "string option"
  ud_created_at :: timestamp

record OrderItem =
  i_product_id :: string
  i_quantity :: int
  i_price :: pyfloat
  i_product_name :: string

record Order =
  o_id :: string
  o_user_id :: string
  o_items :: "OrderItem list"
  o_total_amount :: pyfloat
  o_status :: OrderStatus
  o_payment_method :: string
  o_delivery_address :: "string option"
  o_special_instructions :: "string option"
  o_created_at :: timestamp
  o_updated_at :: timestamp


record Review =
  r_id :: string
  r_product_id :: string
  r_user_id :: string
  r_user_name :: string
  r_rating :: int
  r_comment :: string
  r_created_at :: timestamp

record ReviewCreate =
  rc_product_id :: string
  rc_rating :: int
  rc_comment :: string

record db =
  users :: "user_doc list"
  products :: "Product list"
  orders :: "Order list"
  reviews :: "Review list"

text \<open>
  Every way a request ends other than by its return value. \<open>HTTPException\<close> carries the
  status code and the detail; \<open>RequestValidationError\<close> is the 422 of a body that fails
  a \<^verbatim>\<open>Field\<close> constraint; \<open>KeyError\<close>, \<open>ValidationError\<close> and \<open>OperationFailure\<close> are
  exceptions no handler catches (a 500 response).
\<close>

datatype error =
    HTTPException nat string
  | RequestValidationError string
  | ValidationError string
  | KeyError string
  | OperationFailure

section \<open>Collection operations\<close>

fun find_one :: "('a \<Rightarrow> bool) \<Rightarrow> 'a list \<Rightarrow> 'a option" where
  "find_one P [] = None"
| "find_one P (x # xs) = (if P x then Some x else find_one P xs)"

definition insert_one :: "'a \<Rightarrow> 'a list \<Rightarrow> 'a list" where
  "insert_one x xs = xs @ [x]"

text \<open>
  \<^verbatim>\<open>update_one(filter, {"$set": ..})\<close>: the first matching document is rewritten; the
  result is \<^verbatim>\<open>matched_count\<close> and the collection.
\<close>

fun update_one :: "('a \<Rightarrow> bool) \<Rightarrow> ('a \<Rightarrow> 'a) \<Rightarrow> 'a list \<Rightarrow> nat \<times> 'a list" where
  "update_one P f [] = (0, [])"
| "update_one P f (x # xs) =
     (if P x then (1, f x # xs)
      else (case update_one P f xs of (n, ys) \<Rightarrow> (n, x # ys)))"

definition count_documents :: "('a \<Rightarrow> bool) \<Rightarrow> 'a list \<Rightarrow> nat" where
  "count_documents P xs = length (filter P xs)"

section \<open>Utility functions\<close>

definition SECRET_KEY :: string where
  "SECRET_KEY = ''your-secret-key-change-in-production''"

definition hash_password :: "(string \<Rightarrow> string) \<Rightarrow> string \<Rightarrow> string" where
  "hash_password sha256_hex password = sha256_hex password"

subsection \<open>Tokens\<close>

text \<open>
  The payload dictionary of a token; \<open>None\<close> is an absent key
  (\<^verbatim>\<open>payload.get("user_id")\<close> is tested against \<^verbatim>\<open>None\<close>).
\<close>

record payload =
  c_user_id :: "string option"
  c_email :: "string option"
  c_role :: "UserRole option"
  c_exp :: "timestamp option"

text \<open>
  The library PyJWT is outside the repository. Its HS256 tokens are modelled as an ideal
  message authentication code: \<open>Signed k c\<close> is the one string whose signature validates
  for the payload \<open>c\<close> under the key \<open>k\<close>; every other string is \<open>Garbage\<close>.
\<close>

datatype token = Signed string payload | Garbage string

datatype jwt_error = ExpiredSignatureError | InvalidTokenError

definition jwt_encode :: "payload \<Rightarrow> string \<Rightarrow> token" where
  "jwt_encode c key = Signed key c"

text \<open>Python's \<^verbatim>\<open>int(x)\<close> on a float truncates towards zero.\<close>

definition py_int :: "pyfloat \<Rightarrow> int" where
  "py_int x = (if 0 \<le> x then \<lfloor>x\<rfloor> else \<lceil>x\<rceil>)"

text \<open>
  \<^verbatim>\<open>jwt.decode(token, key, algorithms=["HS256"])\<close> at clock reading \<open>now\<close>: the
  signature is checked first, then \<^verbatim>\<open>exp\<close> when present, which PyJWT 2 reads as
  \<^verbatim>\<open>int(payload["exp"])\<close> and rejects when \<^verbatim>\<open>exp <= now\<close>.
\<close>

definition jwt_decode :: "timestamp \<Rightarrow> token \<Rightarrow> string \<Rightarrow> jwt_error + payload" where
  "jwt_decode now tok key =
     (case tok of
        Garbage s \<Rightarrow> Inl InvalidTokenError
      | Signed k c \<Rightarrow>
          if k \<noteq> key then Inl InvalidTokenError
          else (case c_exp c of
                  None \<Rightarrow> Inr c
                | Some e \<Rightarrow>
                    if real_of_int (py_int e) \<le> now then Inl ExpiredSignatureError
                    else Inr c))"

definition create_token :: "timestamp \<Rightarrow> string \<Rightarrow> string \<Rightarrow> UserRole \<Rightarrow> token" where
  "create_token now user_id email role =
     jwt_encode \<lparr> c_user_id = Some user_id, c_email = Some email, c_role = Some role,
                  c_exp = Some (now + 86400) \<rparr> SECRET_KEY"

text \<open>
  \<^verbatim>\<open>User(**user)\<close> on a stored document: pydantic keeps the declared fields and
  ignores every other key (the class sets no \<^verbatim>\<open>Config\<close>), here \<^verbatim>\<open>"password"\<close>.
\<close>

definition User_of_doc :: "user_doc \<Rightarrow> User" where
  "User_of_doc d =
     \<lparr> u_id = ud_id d, u_email = ud_email d, u_name = ud_name d, u_role = ud_role d,
       u_phone = ud_phone d, u_address = ud_address d, u_created_at = ud_created_at d \<rparr>"

text \<open>\<^verbatim>\<open>user_obj.dict()\<close>: the declared fields of \<^verbatim>\<open>User\<close>, and no others.\<close>

definition User_dict :: "User \<Rightarrow> user_doc" where
  "User_dict u =
     \<lparr> ud_id = u_id u, ud_email = u_email u, ud_name = u_name u, ud_password = None,
       ud_role = u_role u, ud_phone = u_phone u, ud_address = u_address u,
       ud_created_at = u_created_at u \<rparr>"

definition get_current_user :: "timestamp \<Rightarrow> token \<Rightarrow> db \<Rightarrow> error + User" where
  "get_current_user now credentials d =
     (case jwt_decode now credentials SECRET_KEY of
        Inl ExpiredSignatureError \<Rightarrow> Inl (HTTPException 401 ''Token expired'')
      | Inl InvalidTokenError \<Rightarrow> Inl (HTTPException 401 ''Invalid token'')
      | Inr pl \<Rightarrow>
          (case c_user_id pl of
             None \<Rightarrow> Inl (HTTPException 401 ''Invalid token'')
           | Some user_id \<Rightarrow>
               (case find_one (\<lambda>u. ud_id u = user_id) (users d) of
                  None \<Rightarrow> Inl (HTTPException 401 ''User not found'')
                | Some user \<Rightarrow> Inr (User_of_doc user))))"

section \<open>Product endpoints\<close>

definition get_products :: "ProductCategory option \<Rightarrow> db \<Rightarrow> Product list" where
  "get_products category d =
     filter (\<lambda>p. p_available p \<and> (case category of None \<Rightarrow> True | Some c \<Rightarrow> p_category p = c))
       (products d)"

definition get_product :: "string \<Rightarrow> db \<Rightarrow> error + Product" where
  "get_product product_id d =
     (case find_one (\<lambda>p. p_id p = product_id) (products d) of
        None \<Rightarrow> Inl (HTTPException 404 ''Product not found'')
      | Some product \<Rightarrow> Inr product)"

text \<open>\<^verbatim>\<open>Product(**product.dict())\<close>: the defaults fill id, availability and creation time.\<close>

definition Product_init :: "string \<Rightarrow> timestamp \<Rightarrow> ProductCreate \<Rightarrow> Product" where
  "Product_init new_id now pc =
     \<lparr> p_id = new_id, p_name = pc_name pc, p_description = pc_description pc,
       p_price = pc_price pc, p_category = pc_category pc, p_image_url = pc_image_url pc,
       p_available = True, p_ingredients = pc_ingredients pc,
       p_nutritional_info = pc_nutritional_info pc, p_created_at = now \<rparr>"

definition create_product ::
  "string \<Rightarrow> timestamp \<Rightarrow> ProductCreate \<Rightarrow> User \<Rightarrow> db \<Rightarrow> (error + Product) \<times> db" where
  "create_product new_id now product current_user d =
     (if u_role current_user \<noteq> ADMIN then (Inl (HTTPException 403 ''Admin access required''), d)
      else (let product_obj = Product_init new_id now product
            in (Inr product_obj, d\<lparr>products := insert_one product_obj (products d)\<rparr>)))"

section \<open>User endpoints\<close>

text \<open>
  \<^verbatim>\<open>User(**user_dict)\<close> in \<^verbatim>\<open>register\<close>: \<open>user_dict\<close> is the dictionary of the
  request with its password replaced by the digest. The class \<^verbatim>\<open>User\<close> has no such
  field, so the constructed object does not hold it.
\<close>

definition User_init :: "string \<Rightarrow> timestamp \<Rightarrow> UserCreate \<Rightarrow> User" where
  "User_init new_id now user_dict =
     \<lparr> u_id = new_id, u_email = uc_email user_dict, u_name = uc_name user_dict,
       u_role = CUSTOMER, u_phone = uc_phone user_dict, u_address = uc_address user_dict,
       u_created_at = now \<rparr>"

definition register ::
  "(string \<Rightarrow> string) \<Rightarrow> string \<Rightarrow> timestamp \<Rightarrow> timestamp \<Rightarrow> UserCreate \<Rightarrow> db
     \<Rightarrow> (error + token \<times> User) \<times> db" where
  "register sha256_hex new_id now token_now user d =
     (case find_one (\<lambda>u. ud_email u = uc_email user) (users d) of
        Some existing_user \<Rightarrow> (Inl (HTTPException 400 ''Email already registered''), d)
      | None \<Rightarrow>
          (let user_dict = user\<lparr>uc_password := hash_password sha256_hex (uc_password user)\<rparr>;
               user_obj = User_init new_id now user_dict;
               d' = d\<lparr>users := insert_one (User_dict user_obj) (users d)\<rparr>;
               tok = create_token token_now (u_id user_obj) (u_email user_obj) (u_role user_obj)
           in (Inr (tok, user_obj), d')))"

text \<open>
  \<^verbatim>\<open>not user or user["password"] != hash_password(..)\<close>: the subscript raises
  \<^verbatim>\<open>KeyError\<close> on a document without the key.
\<close>

definition login ::
  "(string \<Rightarrow> string) \<Rightarrow> timestamp \<Rightarrow> UserLogin \<Rightarrow> db \<Rightarrow> error + token \<times> User" where
  "login sha256_hex token_now credentials d =
     (case find_one (\<lambda>u. ud_email u = ul_email credentials) (users d) of
        None \<Rightarrow> Inl (HTTPException 401 ''Invalid credentials'')
      | Some user \<Rightarrow>
          (case ud_password user of
             None \<Rightarrow> Inl (KeyError ''password'')
           | Some digest \<Rightarrow>
               if digest \<noteq> hash_password sha256_hex (ul_password credentials)
               then Inl (HTTPException 401 ''Invalid credentials'')
               else Inr (create_token token_now (ud_id user) (ud_email user) (ud_role user),
                         User_of_doc user)))"

section \<open>Order endpoints\<close>




definition update_order_status ::
  "timestamp \<Rightarrow> string \<Rightarrow> OrderStatus \<Rightarrow> User \<Rightarrow> db \<Rightarrow> (error + string) \<times> db" where
  "update_order_status now order_id status current_user d =
     (if u_role current_user \<noteq> ADMIN then (Inl (HTTPException 403 ''Admin access required''), d)
      else (case update_one (\<lambda>ord. o_id ord = order_id)
                   (\<lambda>ord. ord\<lparr>o_status := status, o_updated_at := now\<rparr>) (orders d) of
              (matched_count, orders') \<Rightarrow>
                if matched_count = 0
                then (Inl (HTTPException 404 ''Order not found''), d\<lparr>orders := orders'\<rparr>)
                else (Inr ''Order status updated'', d\<lparr>orders := orders'\<rparr>)))"

section \<open>Review endpoints\<close>

text \<open>
  The request body: \<^verbatim>\<open>rating: int = Field(..., ge=1, le=5)\<close>. The framework builds the
  \<^verbatim>\<open>ReviewCreate\<close> before the handler runs and answers 422 when it cannot.
\<close>

definition ReviewCreate_init :: "string \<Rightarrow> int \<Rightarrow> string \<Rightarrow> error + ReviewCreate" where
  "ReviewCreate_init product_id rating comment =
     (if 1 \<le> rating \<and> rating \<le> 5
      then Inr \<lparr> rc_product_id = product_id, rc_rating = rating, rc_comment = comment \<rparr>
      else Inl (RequestValidationError ''rating''))"

text \<open>\<^verbatim>\<open>Review(**review_dict)\<close> checks the same bounds again.\<close>

definition Review_init :: "string \<Rightarrow> timestamp \<Rightarrow> ReviewCreate \<Rightarrow> User \<Rightarrow> error + Review" where
  "Review_init new_id now review current_user =
     (if 1 \<le> rc_rating review \<and> rc_rating review \<le> 5
      then Inr \<lparr> r_id = new_id, r_product_id = rc_product_id review,
                 r_user_id = u_id current_user, r_user_name = u_name current_user,
                 r_rating = rc_rating review, r_comment = rc_comment review,
                 r_created_at = now \<rparr>
      else Inl (ValidationError ''rating''))"

definition create_review ::
  "string \<Rightarrow> timestamp \<Rightarrow> ReviewCreate \<Rightarrow> User \<Rightarrow> db \<Rightarrow> (error + Review) \<times> db" where
  "create_review new_id now review current_user d =
     (case find_one (\<lambda>p. p_id p = rc_product_id review) (products d) of
        None \<Rightarrow> (Inl (HTTPException 404 ''Product not found''), d)
      | Some product \<Rightarrow>
          (case Review_init new_id now review current_user of
             Inl e \<Rightarrow> (Inl e, d)
           | Inr review_obj \<Rightarrow> (Inr review_obj, d\<lparr>reviews := insert_one review_obj (reviews d)\<rparr>)))"

text \<open>The route \<^verbatim>\<open>POST /reviews\<close> for an authenticated caller: body validation, then the handler.\<close>

definition post_reviews ::
  "string \<Rightarrow> timestamp \<Rightarrow> string \<Rightarrow> int \<Rightarrow> string \<Rightarrow> User \<Rightarrow> db \<Rightarrow> (error + Review) \<times> db" where
  "post_reviews new_id now product_id rating comment current_user d =
     (case ReviewCreate_init product_id rating comment of
        Inl e \<Rightarrow> (Inl e, d)
      | Inr review \<Rightarrow> create_review new_id now review current_user d)"

section \<open>Search endpoint\<close>

text \<open>
  The filter \<^verbatim>\<open>{"$regex": q, "$options": "i"}\<close> hands the query string to the
  database's regular-expression engine, unescaped. The engine is outside the repository
  and is a parameter of \<open>search_products\<close>: it compiles a pattern to a predicate on
  strings, or rejects it (\<open>None\<close>), which the driver raises as an exception.
\<close>

type_synonym regex_engine = "string \<Rightarrow> (string \<Rightarrow> bool) option"

definition search_products :: "regex_engine \<Rightarrow> string \<Rightarrow> db \<Rightarrow> error + Product list" where
  "search_products engine q d =
     (case engine q of
        None \<Rightarrow> Inl OperationFailure
      | Some matches \<Rightarrow>
          Inr (filter (\<lambda>p. p_available p \<and> (matches (p_name p) \<or> matches (p_description p)))
                 (products d)))"

text \<open>Case folding of option \<^verbatim>\<open>i\<close>, on the ASCII letters.\<close>

definition lower :: "char \<Rightarrow> char" where
  "lower c =
     (case map_of (zip ''ABCDEFGHIJKLMNOPQRSTUVWXYZ'' ''abcdefghijklmnopqrstuvwxyz'') c of
        None \<Rightarrow> c
      | Some l \<Rightarrow> l)"

text \<open>
  The engine on the patterns built from literal characters and the wildcard \<^verbatim>\<open>.\<close>,
  which matches any character but a line feed. A pattern holding one of the other
  operator characters is outside this fragment; \<open>caseless_regex\<close> gives \<open>None\<close> for it
  and no theorem below is stated at such a pattern.
\<close>

definition operators :: "char list" where
  "operators =
     [CHR 0x5C, CHR ''^'', CHR ''$'', CHR ''['', CHR '']'', CHR ''|'', CHR ''('', CHR '')'',
      CHR ''?'', CHR ''*'', CHR ''+'', CHR ''{'', CHR ''}'']"

definition atom_matches :: "char \<Rightarrow> char \<Rightarrow> bool" where
  "atom_matches a c = (if a = CHR ''.'' then c \<noteq> CHR 0x0A else lower a = lower c)"

fun match_here :: "string \<Rightarrow> string \<Rightarrow> bool" where
  "match_here [] s = True"
| "match_here (a # as) [] = False"
| "match_here (a # as) (c # cs) = (atom_matches a c \<and> match_here as cs)"

fun match_anywhere :: "string \<Rightarrow> string \<Rightarrow> bool" where
  "match_anywhere pat [] = match_here pat []"
| "match_anywhere pat (c # cs) = (match_here pat (c # cs) \<or> match_anywhere pat cs)"

definition caseless_regex :: regex_engine where
  "caseless_regex q =
     (if list_ex (\<lambda>c. c \<in> set operators) q then None else Some (match_anywhere q))"

text \<open>
  The specification's reading of the search, in its own words: \<open>q\<close> occurs in \<open>s\<close> as a
  case-insensitive substring.
\<close>

definition contains_caseless :: "string \<Rightarrow> string \<Rightarrow> bool" where
  "contains_caseless q s = sublist (map lower q) (map lower s)"

definition spec_search :: "string \<Rightarrow> db \<Rightarrow> Product list" where
  "spec_search q d =
     filter (\<lambda>p. p_available p \<and> (contains_caseless q (p_name p) \<or> contains_caseless q (p_description p)))
       (products d)"

section \<open>Dashboard endpoint\<close>

record stats =
  total_products :: nat
  total_orders :: nat
  total_users :: nat
  pending_orders :: nat

definition get_dashboard_stats :: "User \<Rightarrow> db \<Rightarrow> error + stats" where
  "get_dashboard_stats current_user d =
     (if u_role current_user \<noteq> ADMIN then Inl (HTTPException 403 ''Admin access required'')
      else Inr \<lparr> total_products = count_documents p_available (products d),
                 total_orders = count_documents (\<lambda>ord. True) (orders d),
                 total_users = count_documents (\<lambda>u. ud_role u = CUSTOMER) (users d),
                 pending_orders = count_documents (\<lambda>ord. o_status ord = PENDING) (orders d) \<rparr>)"

section \<open>Sample data\<close>

text \<open>
  \<^verbatim>\<open>init_sample_data\<close>; \<open>uuid k\<close> and \<open>clock k\<close> are the results of the \<open>k\<close>-th call of
  \<^verbatim>\<open>uuid.uuid4()\<close> and of \<^verbatim>\<open>datetime.now\<close>. The administrator's document is written
  as a dictionary, with its \<^verbatim>\<open>"password"\<close> key.
\<close>

definition sample_products :: "(nat \<Rightarrow> string) \<Rightarrow> (nat \<Rightarrow> timestamp) \<Rightarrow> Product list" where
  "sample_products uuid clock =
     [\<lparr> p_id = uuid 0, p_name = ''Espresso'',
        p_description = ''Rich and bold espresso shot made from premium coffee beans'',
        p_price = 2.50, p_category = COFFEE,
        p_image_url = ''https://images.unsplash.com/photo-1541167760496-1628856ab772?w=400&h=300&fit=crop'',
        p_available = True, p_ingredients = [''coffee beans'', ''water''],
        p_nutritional_info = [(''calories'', 5), (''caffeine_mg'', 63)], p_created_at = clock 0 \<rparr>,
      \<lparr> p_id = uuid 1, p_name = ''Cappuccino'',
        p_description = ''Perfect balance of espresso, steamed milk, and foam'',
        p_price = 4.25, p_category = COFFEE,
        p_image_url = ''https://images.unsplash.com/photo-1572442388796-11668a67e53d?w=400&h=300&fit=crop'',
        p_available = True, p_ingredients = [''coffee beans'', ''milk'', ''milk foam''],
        p_nutritional_info = [(''calories'', 120), (''caffeine_mg'', 63)], p_created_at = clock 1 \<rparr>,
      \<lparr> p_id = uuid 2, p_name = ''Latte'',
        p_description = ''Smooth espresso with steamed milk and light foam'',
        p_price = 4.50, p_category = COFFEE,
        p_image_url = ''https://images.unsplash.com/photo-1561882468-9110e03e0f78?w=400&h=300&fit=crop'',
        p_available = True, p_ingredients = [''coffee beans'', ''steamed milk''],
        p_nutritional_info = [(''calories'', 150), (''caffeine_mg'', 63)], p_created_at = clock 2 \<rparr>,
      \<lparr> p_id = uuid 3, p_name = ''Croissant'',
        p_description = ''Buttery, flaky French pastry perfect for breakfast'',
        p_price = 3.50, p_category = PASTRY,
        p_image_url = ''https://images.unsplash.com/photo-1555507036-ab794f27da6a?w=400&h=300&fit=crop'',
        p_available = True, p_ingredients = [''flour'', ''butter'', ''yeast'', ''milk'', ''eggs''],
        p_nutritional_info = [(''calories'', 231), (''fat_g'', 12)], p_created_at = clock 3 \<rparr>,
      \<lparr> p_id = uuid 4, p_name = ''Blueberry Muffin'',
        p_description = ''Fresh baked muffin loaded with juicy blueberries'',
        p_price = 3.25, p_category = PASTRY,
        p_image_url = ''https://images.unsplash.com/photo-1607958996333-41aef7caefaa?w=400&h=300&fit=crop'',
        p_available = True,
        p_ingredients = [''flour'', ''blueberries'', ''sugar'', ''eggs'', ''butter''],
        p_nutritional_info = [(''calories'', 265), (''sugar_g'', 18)], p_created_at = clock 4 \<rparr>,
      \<lparr> p_id = uuid 5, p_name = ''Club Sandwich'',
        p_description = ''Triple-decker with turkey, bacon, lettuce, and tomato'',
        p_price = 8.75, p_category = SANDWICH,
        p_image_url = ''https://images.unsplash.com/photo-1567234669003-dce7a7a88821?w=400&h=300&fit=crop'',
        p_available = True,
        p_ingredients = [''bread'', ''turkey'', ''bacon'', ''lettuce'', ''tomato'', ''mayo''],
        p_nutritional_info = [(''calories'', 450), (''protein_g'', 28)], p_created_at = clock 5 \<rparr>,
      \<lparr> p_id = uuid 6, p_name = ''Chocolate Cake'',
        p_description = ''Rich, moist chocolate cake with chocolate frosting'',
        p_price = 5.50, p_category = CAKE,
        p_image_url = ''https://images.unsplash.com/photo-1578985545062-69928b1d9587?w=400&h=300&fit=crop'',
        p_available = True,
        p_ingredients = [''flour'', ''cocoa'', ''sugar'', ''eggs'', ''butter'', ''chocolate''],
        p_nutritional_info = [(''calories'', 365), (''sugar_g'', 35)], p_created_at = clock 6 \<rparr>]"

definition admin_user :: "(string \<Rightarrow> string) \<Rightarrow> (nat \<Rightarrow> string) \<Rightarrow> (nat \<Rightarrow> timestamp) \<Rightarrow> user_doc" where
  "admin_user sha256_hex uuid clock =
     \<lparr> ud_id = uuid 7, ud_email = ''admin@cafe.com'', ud_name = ''Admin User'',
       ud_password = Some (hash_password sha256_hex ''admin123''), ud_role = ADMIN,
       ud_phone = None, ud_address = None, ud_created_at = clock 7 \<rparr>"

definition init_sample_data ::
  "(string \<Rightarrow> string) \<Rightarrow> (nat \<Rightarrow> string) \<Rightarrow> (nat \<Rightarrow> timestamp) \<Rightarrow> db \<Rightarrow> db" where
  "init_sample_data sha256_hex uuid clock d =
     (if count_documents (\<lambda>p. True) (products d) > 0 then d
      else d\<lparr> products := products d @ sample_products uuid clock,
              users := insert_one (admin_user sha256_hex uuid clock) (users d) \<rparr>)"

definition empty_db :: db where
  "empty_db = \<lparr> users = [], products = [], orders = [], reviews = [] \<rparr>"

section \<open>Example data\<close>

text \<open>Two customers, an administrator, one order and a one-product catalogue.\<close>

definition ann :: User where
  "ann = \<lparr> u_id = ''id-1'', u_email = ''ann@cafe.com'', u_name = ''Ann'', u_role = CUSTOMER,
           u_phone = None, u_address = None, u_created_at = 1000 \<rparr>"



definition two_items :: "OrderItem list" where
  "two_items =
     [\<lparr> i_product_id = ''p-1'', i_quantity = 2, i_price = 2.50, i_product_name = ''Espresso'' \<rparr>,
      \<lparr> i_product_id = ''p-2'', i_quantity = 1, i_price = 4.25, i_product_name = ''Cappuccino'' \<rparr>]"

definition ann_order :: Order where
  "ann_order =
     \<lparr> o_id = ''o-1'', o_user_id = ''id-1'', o_items = two_items, o_total_amount = 9.25,
       o_status = PENDING, o_payment_method = ''card'', o_delivery_address = None,
       o_special_instructions = None, o_created_at = 2000, o_updated_at = 2000 \<rparr>"

definition scone :: Product where
  "scone =
     \<lparr> p_id = ''p-9'', p_name = ''Scone'', p_description = ''Plain scone'', p_price = 2,
       p_category = PASTRY, p_image_url = ''scone.png'', p_available = False,
       p_ingredients = [''flour''], p_nutritional_info = [], p_created_at = 950 \<rparr>"

definition shop :: db where
  "shop = \<lparr> users = [], products = [scone], orders = [ann_order], reviews = [] \<rparr>"

text \<open>
  The store after \<^verbatim>\<open>init_sample_data\<close> on an empty database, for one choice of the
  digest, the identifiers and the clock.
\<close>

definition toy_digest :: "string \<Rightarrow> string" where
  "toy_digest password = ''digest:'' @ password"

definition toy_uuid :: "nat \<Rightarrow> string" where
  "toy_uuid k = ''uuid-'' @ replicate k CHR ''i''"

definition toy_clock :: "nat \<Rightarrow> timestamp" where
  "toy_clock k = 100 + real k"

definition seeded :: db where
  "seeded = init_sample_data toy_digest toy_uuid toy_clock empty_db"

section \<open>Token issuance and verification\<close>

lemma jwt_decode_fresh:
  assumes "0 \<le> t" and "now \<le> t + 86399"
  shows "jwt_decode now (create_token t uid e r) SECRET_KEY =
           Inr \<lparr> c_user_id = Some uid, c_email = Some e, c_role = Some r, c_exp = Some (t + 86400) \<rparr>"
proof -
  have fl: "py_int (t + 86400) = \<lfloor>t + 86400\<rfloor>"
    using assms(1) by (simp add: py_int_def)
  have "t + 86400 < real_of_int \<lfloor>t + 86400\<rfloor> + 1"
    by linarith
  with assms(2) have "\<not> real_of_int (py_int (t + 86400)) \<le> now"
    unfolding fl by linarith
  then show ?thesis
    by (simp add: jwt_decode_def create_token_def jwt_encode_def)
qed

lemma jwt_decode_expired:
  assumes "0 \<le> t" and "t + 86400 < now"
  shows "jwt_decode now (create_token t uid e r) SECRET_KEY = Inl ExpiredSignatureError"
proof -
  have fl: "py_int (t + 86400) = \<lfloor>t + 86400\<rfloor>"
    using assms(1) by (simp add: py_int_def)
  have "real_of_int \<lfloor>t + 86400\<rfloor> \<le> t + 86400"
    by (rule of_int_floor_le)
  with assms(2) have "real_of_int (py_int (t + 86400)) \<le> now"
    unfolding fl by linarith
  then show ?thesis
    by (simp add: jwt_decode_def create_token_def jwt_encode_def)
qed

text \<open>
  Claim C2. A token issued at clock reading \<open>t\<close> for an account id, email and role
  decodes, at any reading up to \<open>t + 86399\<close> (so also at \<open>t\<close> itself), to the payload with
  exactly that id, email and role and the expiry \<open>t + 86400\<close>, and \<open>get_current_user\<close>
  then answers with the stored account of that id. At any reading later than
  \<open>t + 86400\<close> decoding fails with \<open>ExpiredSignatureError\<close>, which \<open>get_current_user\<close>
  reports as 401 "Token expired". The clock is a POSIX time, so \<open>0 \<le> t\<close>.
\<close>

theorem token_roundtrip_and_expiry:
  "0 \<le> t \<Longrightarrow>
     (now \<le> t + 86399 \<longrightarrow>
        jwt_decode now (create_token t uid e r) SECRET_KEY =
          Inr \<lparr> c_user_id = Some uid, c_email = Some e, c_role = Some r, c_exp = Some (t + 86400) \<rparr>
        \<and> (find_one (\<lambda>u. ud_id u = uid) (users d) = Some acct \<longrightarrow>
             get_current_user now (create_token t uid e r) d = Inr (User_of_doc acct)))
   \<and> (t + 86400 < late \<longrightarrow>
        jwt_decode late (create_token t uid e r) SECRET_KEY = Inl ExpiredSignatureError
        \<and> get_current_user late (create_token t uid e r) d = Inl (HTTPException 401 ''Token expired''))"
  by (simp add: jwt_decode_fresh jwt_decode_expired get_current_user_def)

theorem token_roundtrip_and_expiry_witness:
  "jwt_decode 1000 (create_token 1000 ''u1'' ''ann@cafe.com'' CUSTOMER) SECRET_KEY =
     Inr \<lparr> c_user_id = Some ''u1'', c_email = Some ''ann@cafe.com'', c_role = Some CUSTOMER,
           c_exp = Some 87400 \<rparr>
   \<and> get_current_user 1000 (create_token 1000 ''u1'' ''ann@cafe.com'' CUSTOMER)
       (empty_db\<lparr>users := [\<lparr> ud_id = ''u1'', ud_email = ''ann@cafe.com'', ud_name = ''Ann'',
                              ud_password = None, ud_role = CUSTOMER, ud_phone = None,
                              ud_address = None, ud_created_at = 1000 \<rparr>]\<rparr>) =
       Inr \<lparr> u_id = ''u1'', u_email = ''ann@cafe.com'', u_name = ''Ann'', u_role = CUSTOMER,
             u_phone = None, u_address = None, u_created_at = 1000 \<rparr>
   \<and> jwt_decode 87400.5 (create_token 1000 ''u1'' ''ann@cafe.com'' CUSTOMER) SECRET_KEY =
       Inl ExpiredSignatureError
   \<and> get_current_user 87400.5 (create_token 1000 ''u1'' ''ann@cafe.com'' CUSTOMER)
       (empty_db\<lparr>users := [\<lparr> ud_id = ''u1'', ud_email = ''ann@cafe.com'', ud_name = ''Ann'',
                              ud_password = None, ud_role = CUSTOMER, ud_phone = None,
                              ud_address = None, ud_created_at = 1000 \<rparr>]\<rparr>) =
       Inl (HTTPException 401 ''Token expired'')"
  using token_roundtrip_and_expiry
    [of 1000 1000 "''u1''" "''ann@cafe.com''" CUSTOMER
        "empty_db\<lparr>users := [\<lparr> ud_id = ''u1'', ud_email = ''ann@cafe.com'', ud_name = ''Ann'',
                              ud_password = None, ud_role = CUSTOMER, ud_phone = None,
                              ud_address = None, ud_created_at = 1000 \<rparr>]\<rparr>"
        "\<lparr> ud_id = ''u1'', ud_email = ''ann@cafe.com'', ud_name = ''Ann'',
           ud_password = None, ud_role = CUSTOMER, ud_phone = None,
           ud_address = None, ud_created_at = 1000 \<rparr>"
        "87400.5"]
  by (simp add: User_of_doc_def)

section \<open>Facts about the collection operations\<close>

lemma find_one_None_iff: "find_one P xs = None \<longleftrightarrow> (\<forall>x \<in> set xs. \<not> P x)"
  by (induction xs) auto

lemma find_one_SomeD: "find_one P xs = Some x \<Longrightarrow> P x \<and> x \<in> set xs"
  by (induction xs) (auto split: if_splits)

lemma find_one_append:
  "find_one P (xs @ ys) = (case find_one P xs of None \<Rightarrow> find_one P ys | Some x \<Rightarrow> Some x)"
  by (induction xs) auto

lemma find_one_distinct:
  "distinct (map f xs) \<Longrightarrow> x \<in> set xs \<Longrightarrow> find_one (\<lambda>y. f y = f x) xs = Some x"
  by (induction xs) (auto simp: rev_image_eqI)

lemma count_distinct:
  "distinct (map f xs) \<Longrightarrow> x \<in> set xs \<Longrightarrow> count_documents (\<lambda>y. f y = f x) xs = 1"
  unfolding count_documents_def
proof (induction xs)
  case Nil
  then show ?case by simp
next
  case (Cons a xs)
  show ?case
  proof (cases "a = x")
    case True
    with Cons.prems have "f x \<notin> f ` set xs" by simp
    then have "\<forall>y \<in> set xs. f y \<noteq> f x" by (metis imageI)
    then have "filter (\<lambda>y. f y = f x) xs = []" by (simp add: filter_empty_conv)
    with True show ?thesis by simp
  next
    case False
    with Cons.prems have "x \<in> set xs" and "f a \<noteq> f x" and "distinct (map f xs)" by auto
    with Cons.IH show ?thesis by simp
  qed
qed

section \<open>Registration and login\<close>

lemma register_existing:
  assumes "\<exists>u \<in> set (users d). ud_email u = uc_email user"
  shows "register sha new_id now tn user d = (Inl (HTTPException 400 ''Email already registered''), d)"
proof -
  from assms have "find_one (\<lambda>u. ud_email u = uc_email user) (users d) \<noteq> None"
    by (simp add: find_one_None_iff)
  then show ?thesis
    by (auto simp: register_def)
qed

lemma register_fresh:
  assumes "find_one (\<lambda>u. ud_email u = uc_email user) (users d) = None"
  shows "register sha new_id now tn user d =
           (Inr (create_token tn new_id (uc_email user) CUSTOMER,
                 \<lparr> u_id = new_id, u_email = uc_email user, u_name = uc_name user, u_role = CUSTOMER,
                   u_phone = uc_phone user, u_address = uc_address user, u_created_at = now \<rparr>),
            d\<lparr>users := users d @
                 [\<lparr> ud_id = new_id, ud_email = uc_email user, ud_name = uc_name user,
                    ud_password = None, ud_role = CUSTOMER, ud_phone = uc_phone user,
                    ud_address = uc_address user, ud_created_at = now \<rparr>]\<rparr>)"
  using assms
  by (simp add: register_def Let_def User_init_def User_dict_def insert_one_def)

lemma register_keeps_emails_distinct:
  assumes "distinct (map ud_email (users d))"
  shows "distinct (map ud_email (users (snd (register sha new_id now tn user d))))"
proof (cases "find_one (\<lambda>u. ud_email u = uc_email user) (users d)")
  case None
  then have "\<forall>u \<in> set (users d). ud_email u \<noteq> uc_email user"
    by (simp add: find_one_None_iff)
  with assms None show ?thesis
    by (auto simp: register_fresh)
next
  case (Some u)
  then show ?thesis using assms by (simp add: register_def)
qed

lemma login_after_register:
  assumes "register sha new_id now tn user d = (Inr r, d')"
  shows "login sha tn' \<lparr> ul_email = uc_email user, ul_password = pw \<rparr> d' = Inl (KeyError ''password'')"
proof (cases "find_one (\<lambda>u. ud_email u = uc_email user) (users d)")
  case None
  with assms have "d' = snd (register sha new_id now tn user d)" by simp
  with None show ?thesis
    by (simp add: register_fresh login_def find_one_append)
next
  case (Some u)
  with assms show ?thesis by (simp add: register_def)
qed

text \<open>
  The administrator written by \<^verbatim>\<open>init_sample_data\<close> keeps its digest, and logs in.
\<close>

lemma seeded_admin_login:
  "login sha tn \<lparr> ul_email = ''admin@cafe.com'', ul_password = ''admin123'' \<rparr>
     (init_sample_data sha uuid clock empty_db) =
   Inr (create_token tn (uuid 7) ''admin@cafe.com'' ADMIN,
        \<lparr> u_id = uuid 7, u_email = ''admin@cafe.com'', u_name = ''Admin User'', u_role = ADMIN,
          u_phone = None, u_address = None, u_created_at = clock 7 \<rparr>)"
  by (simp add: login_def init_sample_data_def empty_db_def count_documents_def insert_one_def
      admin_user_def User_of_doc_def)

text \<open>
  Claim C1. Registration on the empty store with email \<open>ann@cafe.com\<close> and password
  \<open>secret\<close> succeeds, but the document it inserts has no \<^verbatim>\<open>"password"\<close> key, and
  the login that follows with the same email and password ends in \<^verbatim>\<open>KeyError\<close>
  instead of returning a token. This holds for whatever digest function is used.
\<close>

theorem register_then_login_raises:
  "users (snd (register sha ''id-1'' 1000 1000
      \<lparr> uc_email = ''ann@cafe.com'', uc_name = ''Ann'', uc_password = ''secret'',
        uc_phone = None, uc_address = None \<rparr> empty_db)) =
     [\<lparr> ud_id = ''id-1'', ud_email = ''ann@cafe.com'', ud_name = ''Ann'', ud_password = None,
        ud_role = CUSTOMER, ud_phone = None, ud_address = None, ud_created_at = 1000 \<rparr>]
   \<and> login sha 1001 \<lparr> ul_email = ''ann@cafe.com'', ul_password = ''secret'' \<rparr>
       (snd (register sha ''id-1'' 1000 1000
          \<lparr> uc_email = ''ann@cafe.com'', uc_name = ''Ann'', uc_password = ''secret'',
            uc_phone = None, uc_address = None \<rparr> empty_db)) = Inl (KeyError ''password'')"
  by (simp add: register_def login_def empty_db_def Let_def User_init_def User_dict_def insert_one_def)

text \<open>
  Claim C3. When the store already holds an account with the email of the request,
  \<open>register\<close> fails with 400 "Email already registered" and returns the store as it
  was; so when emails were unique before, exactly one account has that email afterwards.
\<close>

theorem register_duplicate_email:
  "(\<exists>u \<in> set (users d). ud_email u = uc_email user) \<Longrightarrow>
     register sha new_id now tn user d = (Inl (HTTPException 400 ''Email already registered''), d)
     \<and> (distinct (map ud_email (users d)) \<longrightarrow>
          count_documents (\<lambda>u. ud_email u = uc_email user)
            (users (snd (register sha new_id now tn user d))) = 1)"
proof -
  assume ex: "\<exists>u \<in> set (users d). ud_email u = uc_email user"
  then obtain u where u: "u \<in> set (users d)" "ud_email u = uc_email user" by blast
  have r: "register sha new_id now tn user d = (Inl (HTTPException 400 ''Email already registered''), d)"
    using ex by (rule register_existing)
  have "distinct (map ud_email (users d)) \<Longrightarrow>
        count_documents (\<lambda>y. ud_email y = ud_email u) (users d) = 1"
    using u(1) by (simp add: count_distinct)
  with r u(2) show ?thesis by simp
qed

theorem register_duplicate_email_witness:
  "register (\<lambda>p. p) ''id-2'' 2000 2000
     \<lparr> uc_email = ''ann@cafe.com'', uc_name = ''Other'', uc_password = ''pw'',
       uc_phone = None, uc_address = None \<rparr>
     (empty_db\<lparr>users := [\<lparr> ud_id = ''id-1'', ud_email = ''ann@cafe.com'', ud_name = ''Ann'',
                            ud_password = None, ud_role = CUSTOMER, ud_phone = None,
                            ud_address = None, ud_created_at = 1000 \<rparr>]\<rparr>) =
     (Inl (HTTPException 400 ''Email already registered''),
      empty_db\<lparr>users := [\<lparr> ud_id = ''id-1'', ud_email = ''ann@cafe.com'', ud_name = ''Ann'',
                            ud_password = None, ud_role = CUSTOMER, ud_phone = None,
                            ud_address = None, ud_created_at = 1000 \<rparr>]\<rparr>)
   \<and> count_documents (\<lambda>u. ud_email u = ''ann@cafe.com'')
       (users (snd (register (\<lambda>p. p) ''id-2'' 2000 2000
          \<lparr> uc_email = ''ann@cafe.com'', uc_name = ''Other'', uc_password = ''pw'',
            uc_phone = None, uc_address = None \<rparr>
          (empty_db\<lparr>users := [\<lparr> ud_id = ''id-1'', ud_email = ''ann@cafe.com'', ud_name = ''Ann'',
                                 ud_password = None, ud_role = CUSTOMER, ud_phone = None,
                                 ud_address = None, ud_created_at = 1000 \<rparr>]\<rparr>)))) = 1"
  using register_duplicate_email
    [of "empty_db\<lparr>users := [\<lparr> ud_id = ''id-1'', ud_email = ''ann@cafe.com'', ud_name = ''Ann'',
                              ud_password = None, ud_role = CUSTOMER, ud_phone = None,
                              ud_address = None, ud_created_at = 1000 \<rparr>]\<rparr>"
        "\<lparr> uc_email = ''ann@cafe.com'', uc_name = ''Other'', uc_password = ''pw'',
           uc_phone = None, uc_address = None \<rparr>"
        "\<lambda>p. p" "''id-2''" 2000 2000]
  by (simp add: empty_db_def count_documents_def)

text \<open>
  The scenario of the specification: two registrations with one email, starting from a
  store without it. The second fails and one account holds the email.
\<close>

lemma register_twice:
  assumes "find_one (\<lambda>u. ud_email u = uc_email user) (users d) = None"
      and "uc_email user' = uc_email user"
      and "d1 = snd (register sha id1 now tn user d)"
  shows "register sha id2 now' tn' user' d1 = (Inl (HTTPException 400 ''Email already registered''), d1)
         \<and> count_documents (\<lambda>u. ud_email u = uc_email user) (users d1) = 1"
proof -
  from assms(1) have none: "\<forall>u \<in> set (users d). ud_email u \<noteq> uc_email user"
    by (simp add: find_one_None_iff)
  then have "filter (\<lambda>u. ud_email u = uc_email user) (users d) = []"
    by (simp add: filter_empty_conv)
  with assms(1,3) have c: "count_documents (\<lambda>u. ud_email u = uc_email user) (users d1) = 1"
    by (simp add: register_fresh count_documents_def)
  from assms have "\<exists>u \<in> set (users d1). ud_email u = uc_email user'"
    by (simp add: register_fresh)
  then have "register sha id2 now' tn' user' d1 = (Inl (HTTPException 400 ''Email already registered''), d1)"
    by (rule register_existing)
  with c show ?thesis by simp
qed

section \<open>Access control\<close>

text \<open>
  Claim C4. For a caller whose role is \<open>CUSTOMER\<close>, each of the three administrator
  operations fails with 403 "Admin access required". \<open>create_product\<close> and
  \<open>update_order_status\<close> return the store they were given; \<open>get_dashboard_stats\<close>
  only reads it.
\<close>

theorem customer_forbidden:
  "u_role current_user = CUSTOMER \<Longrightarrow>
     create_product new_id now product current_user d =
       (Inl (HTTPException 403 ''Admin access required''), d)
   \<and> update_order_status now order_id status current_user d =
       (Inl (HTTPException 403 ''Admin access required''), d)
   \<and> get_dashboard_stats current_user d = Inl (HTTPException 403 ''Admin access required'')"
  by (simp add: create_product_def update_order_status_def get_dashboard_stats_def)

theorem customer_forbidden_witness:
  "create_product ''p-9'' 5000
     \<lparr> pc_name = ''Scone'', pc_description = ''Plain scone'', pc_price = 2, pc_category = PASTRY,
       pc_image_url = ''x'', pc_ingredients = [], pc_nutritional_info = [] \<rparr>
     \<lparr> u_id = ''id-1'', u_email = ''ann@cafe.com'', u_name = ''Ann'', u_role = CUSTOMER,
       u_phone = None, u_address = None, u_created_at = 1000 \<rparr> empty_db =
     (Inl (HTTPException 403 ''Admin access required''), empty_db)
   \<and> update_order_status 5000 ''o-1'' COMPLETED
       \<lparr> u_id = ''id-1'', u_email = ''ann@cafe.com'', u_name = ''Ann'', u_role = CUSTOMER,
         u_phone = None, u_address = None, u_created_at = 1000 \<rparr> empty_db =
       (Inl (HTTPException 403 ''Admin access required''), empty_db)
   \<and> get_dashboard_stats
       \<lparr> u_id = ''id-1'', u_email = ''ann@cafe.com'', u_name = ''Ann'', u_role = CUSTOMER,
         u_phone = None, u_address = None, u_created_at = 1000 \<rparr> empty_db =
       Inl (HTTPException 403 ''Admin access required'')"
  using customer_forbidden
    [of "\<lparr> u_id = ''id-1'', u_email = ''ann@cafe.com'', u_name = ''Ann'', u_role = CUSTOMER,
           u_phone = None, u_address = None, u_created_at = 1000 \<rparr>"
        "''p-9''" 5000
        "\<lparr> pc_name = ''Scone'', pc_description = ''Plain scone'', pc_price = 2,
           pc_category = PASTRY, pc_image_url = ''x'', pc_ingredients = [],
           pc_nutritional_info = [] \<rparr>"
        empty_db "''o-1''" COMPLETED]
  by simp

section \<open>Orders\<close>





lemma update_one_miss:
  "\<forall>y \<in> set xs. \<not> P y \<Longrightarrow> update_one P f xs = (0, xs)"
  by (induction xs) auto







section \<open>Reviews\<close>

text \<open>
  Claim C7. For an authenticated caller, \<open>POST /reviews\<close> with a rating below 1 or above 5
  (so 0 and 6) fails with the 422 validation error and the store is unchanged; with a
  rating from 1 to 5 it fails with 404 "Product not found", store unchanged, when no
  product has the given id, and otherwise appends exactly one review and returns it.
\<close>

theorem review_rating_and_product:
  "(rating < 1 \<or> 5 < rating \<longrightarrow>
      post_reviews new_id now pid rating comment cu d = (Inl (RequestValidationError ''rating''), d))
   \<and> (1 \<le> rating \<and> rating \<le> 5 \<and> (\<forall>p \<in> set (products d). p_id p \<noteq> pid) \<longrightarrow>
      post_reviews new_id now pid rating comment cu d = (Inl (HTTPException 404 ''Product not found''), d))
   \<and> (1 \<le> rating \<and> rating \<le> 5 \<and> (\<exists>p \<in> set (products d). p_id p = pid) \<longrightarrow>
      post_reviews new_id now pid rating comment cu d =
        (Inr \<lparr> r_id = new_id, r_product_id = pid, r_user_id = u_id cu, r_user_name = u_name cu,
               r_rating = rating, r_comment = comment, r_created_at = now \<rparr>,
         d\<lparr>reviews := reviews d @
              [\<lparr> r_id = new_id, r_product_id = pid, r_user_id = u_id cu, r_user_name = u_name cu,
                 r_rating = rating, r_comment = comment, r_created_at = now \<rparr>]\<rparr>))"
proof -
  have a: "rating < 1 \<or> 5 < rating \<longrightarrow>
      post_reviews new_id now pid rating comment cu d = (Inl (RequestValidationError ''rating''), d)"
    by (auto simp: post_reviews_def ReviewCreate_init_def)
  have b: "1 \<le> rating \<and> rating \<le> 5 \<and> (\<forall>p \<in> set (products d). p_id p \<noteq> pid) \<longrightarrow>
      post_reviews new_id now pid rating comment cu d = (Inl (HTTPException 404 ''Product not found''), d)"
  proof (intro impI)
    assume h: "1 \<le> rating \<and> rating \<le> 5 \<and> (\<forall>p \<in> set (products d). p_id p \<noteq> pid)"
    then have "find_one (\<lambda>p. p_id p = pid) (products d) = None"
      by (simp add: find_one_None_iff)
    with h show "post_reviews new_id now pid rating comment cu d = (Inl (HTTPException 404 ''Product not found''), d)"
      by (simp add: post_reviews_def ReviewCreate_init_def create_review_def)
  qed
  have c: "1 \<le> rating \<and> rating \<le> 5 \<and> (\<exists>p \<in> set (products d). p_id p = pid) \<longrightarrow>
      post_reviews new_id now pid rating comment cu d =
        (Inr \<lparr> r_id = new_id, r_product_id = pid, r_user_id = u_id cu, r_user_name = u_name cu,
               r_rating = rating, r_comment = comment, r_created_at = now \<rparr>,
         d\<lparr>reviews := reviews d @
              [\<lparr> r_id = new_id, r_product_id = pid, r_user_id = u_id cu, r_user_name = u_name cu,
                 r_rating = rating, r_comment = comment, r_created_at = now \<rparr>]\<rparr>)"
  proof (intro impI)
    assume h: "1 \<le> rating \<and> rating \<le> 5 \<and> (\<exists>p \<in> set (products d). p_id p = pid)"
    then have "find_one (\<lambda>p. p_id p = pid) (products d) \<noteq> None"
      by (simp add: find_one_None_iff)
    then obtain p where "find_one (\<lambda>p. p_id p = pid) (products d) = Some p" by blast
    with h show "post_reviews new_id now pid rating comment cu d =
        (Inr \<lparr> r_id = new_id, r_product_id = pid, r_user_id = u_id cu, r_user_name = u_name cu,
               r_rating = rating, r_comment = comment, r_created_at = now \<rparr>,
         d\<lparr>reviews := reviews d @
              [\<lparr> r_id = new_id, r_product_id = pid, r_user_id = u_id cu, r_user_name = u_name cu,
                 r_rating = rating, r_comment = comment, r_created_at = now \<rparr>]\<rparr>)"
      by (simp add: post_reviews_def ReviewCreate_init_def create_review_def Review_init_def
          insert_one_def)
  qed
  from a b c show ?thesis by blast
qed

theorem review_rating_and_product_witness:
  "post_reviews ''r-1'' 5000 ''p-9'' 0 ''bad'' ann shop = (Inl (RequestValidationError ''rating''), shop)
   \<and> post_reviews ''r-1'' 5000 ''p-9'' 6 ''great'' ann shop = (Inl (RequestValidationError ''rating''), shop)
   \<and> post_reviews ''r-1'' 5000 ''p-0'' 3 ''fine'' ann shop =
       (Inl (HTTPException 404 ''Product not found''), shop)
   \<and> reviews (snd (post_reviews ''r-1'' 5000 ''p-9'' 1 ''poor'' ann shop)) =
       [\<lparr> r_id = ''r-1'', r_product_id = ''p-9'', r_user_id = ''id-1'', r_user_name = ''Ann'',
          r_rating = 1, r_comment = ''poor'', r_created_at = 5000 \<rparr>]
   \<and> reviews (snd (post_reviews ''r-1'' 5000 ''p-9'' 5 ''best'' ann shop)) =
       [\<lparr> r_id = ''r-1'', r_product_id = ''p-9'', r_user_id = ''id-1'', r_user_name = ''Ann'',
          r_rating = 5, r_comment = ''best'', r_created_at = 5000 \<rparr>]"
proof -
  have ex: "\<exists>p \<in> set (products shop). p_id p = ''p-9''"
    and nex: "\<forall>p \<in> set (products shop). p_id p \<noteq> ''p-0''"
    by (simp_all add: shop_def scone_def)
  from review_rating_and_product
      [where rating = 0 and new_id = "''r-1''" and now = 5000 and pid = "''p-9''"
         and comment = "''bad''" and cu = ann and d = shop]
  have 1: "post_reviews ''r-1'' 5000 ''p-9'' 0 ''bad'' ann shop = (Inl (RequestValidationError ''rating''), shop)"
    by simp
  from review_rating_and_product
      [where rating = 6 and new_id = "''r-1''" and now = 5000 and pid = "''p-9''"
         and comment = "''great''" and cu = ann and d = shop]
  have 2: "post_reviews ''r-1'' 5000 ''p-9'' 6 ''great'' ann shop = (Inl (RequestValidationError ''rating''), shop)"
    by simp
  from review_rating_and_product
      [where rating = 3 and new_id = "''r-1''" and now = 5000 and pid = "''p-0''"
         and comment = "''fine''" and cu = ann and d = shop] nex
  have 3: "post_reviews ''r-1'' 5000 ''p-0'' 3 ''fine'' ann shop =
       (Inl (HTTPException 404 ''Product not found''), shop)"
    by simp
  from review_rating_and_product
      [where rating = 1 and new_id = "''r-1''" and now = 5000 and pid = "''p-9''"
         and comment = "''poor''" and cu = ann and d = shop] ex
  have 4: "reviews (snd (post_reviews ''r-1'' 5000 ''p-9'' 1 ''poor'' ann shop)) =
       [\<lparr> r_id = ''r-1'', r_product_id = ''p-9'', r_user_id = ''id-1'', r_user_name = ''Ann'',
          r_rating = 1, r_comment = ''poor'', r_created_at = 5000 \<rparr>]"
    by (simp add: shop_def ann_def)
  from review_rating_and_product
      [where rating = 5 and new_id = "''r-1''" and now = 5000 and pid = "''p-9''"
         and comment = "''best''" and cu = ann and d = shop] ex
  have 5: "reviews (snd (post_reviews ''r-1'' 5000 ''p-9'' 5 ''best'' ann shop)) =
       [\<lparr> r_id = ''r-1'', r_product_id = ''p-9'', r_user_id = ''id-1'', r_user_name = ''Ann'',
          r_rating = 5, r_comment = ''best'', r_created_at = 5000 \<rparr>]"
    by (simp add: shop_def ann_def)
  from 1 2 3 4 5 show ?thesis by blast
qed

section \<open>Order status\<close>



section \<open>Product search\<close>

text \<open>
  On a pattern without the wildcard the engine's search is the caseless substring test.
\<close>

lemma match_here_prefix:
  "CHR ''.'' \<notin> set q \<Longrightarrow> match_here q s = prefix (map lower q) (map lower s)"
  by (induction q s rule: match_here.induct) (auto simp: atom_matches_def)

lemma match_anywhere_sublist:
  "CHR ''.'' \<notin> set q \<Longrightarrow> match_anywhere q s = sublist (map lower q) (map lower s)"
proof (induction s)
  case Nil
  then show ?case by (cases q) simp_all
next
  case (Cons c cs)
  then show ?case
    by (simp add: sublist_Cons_right match_here_prefix)
qed

lemma caseless_regex_literal:
  assumes "\<forall>c \<in> set q. c \<noteq> CHR ''.'' \<and> c \<notin> set operators"
  shows "caseless_regex q = Some (contains_caseless q)"
proof -
  from assms have "\<not> list_ex (\<lambda>c. c \<in> set operators) q"
    by (simp add: list_ex_iff)
  moreover from assms have "CHR ''.'' \<notin> set q" by blast
  then have "match_anywhere q = contains_caseless q"
    by (simp add: fun_eq_iff contains_caseless_def match_anywhere_sublist)
  ultimately show ?thesis by (simp add: caseless_regex_def)
qed

lemma seeded_products: "products seeded = sample_products toy_uuid toy_clock"
  by (simp add: seeded_def init_sample_data_def empty_db_def count_documents_def)

lemma lowered:
  "map lower ''cro'' = ''cro''
   \<and> map lower ''.'' = ''.''
   \<and> map lower ''Espresso'' = ''espresso''
   \<and> map lower ''Rich and bold espresso shot made from premium coffee beans'' =
       ''rich and bold espresso shot made from premium coffee beans''
   \<and> map lower ''Cappuccino'' = ''cappuccino''
   \<and> map lower ''Perfect balance of espresso, steamed milk, and foam'' =
       ''perfect balance of espresso, steamed milk, and foam''
   \<and> map lower ''Latte'' = ''latte''
   \<and> map lower ''Smooth espresso with steamed milk and light foam'' =
       ''smooth espresso with steamed milk and light foam''
   \<and> map lower ''Croissant'' = ''croissant''
   \<and> map lower ''Buttery, flaky French pastry perfect for breakfast'' =
       ''buttery, flaky french pastry perfect for breakfast''
   \<and> map lower ''Blueberry Muffin'' = ''blueberry muffin''
   \<and> map lower ''Fresh baked muffin loaded with juicy blueberries'' =
       ''fresh baked muffin loaded with juicy blueberries''
   \<and> map lower ''Club Sandwich'' = ''club sandwich''
   \<and> map lower ''Triple-decker with turkey, bacon, lettuce, and tomato'' =
       ''triple-decker with turkey, bacon, lettuce, and tomato''
   \<and> map lower ''Chocolate Cake'' = ''chocolate cake''
   \<and> map lower ''Rich, moist chocolate cake with chocolate frosting'' =
       ''rich, moist chocolate cake with chocolate frosting''"
  by code_simp

lemma spec_search_cro:
  "spec_search ''cro'' seeded = [sample_products toy_uuid toy_clock ! 3]"
  by (simp add: spec_search_def seeded_products sample_products_def contains_caseless_def
      lowered sublist_Cons_right del: list.map)

lemma spec_search_dot: "spec_search ''.'' seeded = []"
  by (simp add: spec_search_def seeded_products sample_products_def contains_caseless_def
      lowered sublist_Cons_right del: list.map)

lemma regex_search_dot: "search_products caseless_regex ''.'' seeded = Inr (products seeded)"
  by (simp add: search_products_def caseless_regex_def operators_def seeded_products
      sample_products_def atom_matches_def)

text \<open>
  Claim C8, as the code has it. The query is a regular expression, not a substring. For
  every query without a regular-expression operator (no wildcard and none of
  \<open>operators\<close>), \<open>search_products\<close> returns exactly the available products whose name
  or description contains the query as a case-insensitive substring. On the sample
  catalogue the query \<open>cro\<close> returns the Croissant only.
\<close>

theorem search_is_substring_for_literals:
  "(\<forall>c \<in> set q. c \<noteq> CHR ''.'' \<and> c \<notin> set operators) \<Longrightarrow>
     search_products caseless_regex q d = Inr (spec_search q d)"
  by (simp add: caseless_regex_literal search_products_def spec_search_def)

theorem search_is_substring_for_literals_witness:
  "search_products caseless_regex ''cro'' seeded = Inr [sample_products toy_uuid toy_clock ! 3]
   \<and> p_name (sample_products toy_uuid toy_clock ! 3) = ''Croissant''"
proof -
  have lit: "\<forall>c \<in> set ''cro''. c \<noteq> CHR ''.'' \<and> c \<notin> set operators"
    by (simp add: operators_def)
  have "search_products caseless_regex ''cro'' seeded = Inr [sample_products toy_uuid toy_clock ! 3]"
    using search_is_substring_for_literals [OF lit, of seeded] by (simp only: spec_search_cro)
  moreover have "p_name (sample_products toy_uuid toy_clock ! 3) = ''Croissant''"
    by (simp add: sample_products_def)
  ultimately show ?thesis by blast
qed

text \<open>
  Claim C8 as stated fails: on the sample catalogue the query \<open>.\<close> returns every product,
  though no name or description contains a full stop.
\<close>

theorem search_dot_counterexample:
  "search_products caseless_regex ''.'' seeded \<noteq> Inr (spec_search ''.'' seeded)"
  by (simp add: regex_search_dot spec_search_dot seeded_products sample_products_def)

section \<open>Product availability\<close>

text \<open>
  Claim C10. With product ids unique, a product of the catalogue whose availability flag
  is false is still returned whole by \<open>get_product\<close>, while it is absent from
  \<open>get_products\<close> (for any category filter) and from every result of \<open>search_products\<close>
  (for any engine and query): both return available products only.
\<close>

theorem unavailable_product_fetchable:
  "distinct (map p_id (products d)) \<Longrightarrow> p \<in> set (products d) \<Longrightarrow> \<not> p_available p \<Longrightarrow>
     get_product (p_id p) d = Inr p
   \<and> p \<notin> set (get_products category d)
   \<and> (\<forall>x \<in> set (get_products category d). p_available x)
   \<and> (\<forall>ps. search_products engine q d = Inr ps \<longrightarrow> p \<notin> set ps \<and> (\<forall>x \<in> set ps. p_available x))"
proof -
  assume dst: "distinct (map p_id (products d))" and mem: "p \<in> set (products d)"
     and una: "\<not> p_available p"
  have "get_product (p_id p) d = Inr p"
    using find_one_distinct [OF dst mem] by (simp add: get_product_def)
  moreover have "\<forall>x \<in> set (get_products category d). p_available x"
    by (simp add: get_products_def)
  moreover have "\<forall>ps. search_products engine q d = Inr ps \<longrightarrow> (\<forall>x \<in> set ps. p_available x)"
    by (auto simp: search_products_def split: option.splits)
  ultimately show ?thesis using una by blast
qed

theorem unavailable_product_fetchable_witness:
  "get_product ''p-9'' shop = Inr scone
   \<and> scone \<notin> set (get_products None shop)
   \<and> search_products caseless_regex ''scone'' shop = Inr []"
proof -
  have dst: "distinct (map p_id (products shop))" and mem: "scone \<in> set (products shop)"
    and una: "\<not> p_available scone" and i: "p_id scone = ''p-9''"
    by (simp_all add: shop_def scone_def)
  note t = unavailable_product_fetchable
    [OF dst mem una, where category = None and engine = caseless_regex and q = "''scone''"]
  have 1: "get_product ''p-9'' shop = Inr scone"
    using t [THEN conjunct1] by (simp only: i)
  have 2: "scone \<notin> set (get_products None shop)"
    using t [THEN conjunct2, THEN conjunct1] .
  have 3: "search_products caseless_regex ''scone'' shop = Inr []"
    by (simp add: search_products_def caseless_regex_def operators_def shop_def scone_def)
  from 1 2 3 show ?thesis by blast
qed

end
